theory Spec2Isabelle
  imports Main "HOL-Library.AList"
begin

section \<open>Python strings\<close>

text \<open>
  A Python \<open>str\<close> is a sequence of Unicode code points, and \<open>len\<close>, slicing, \<open>in\<close> and the
  regular expressions of the sources all count code points. A string is therefore a list of
  code points; \<open>u\<close> embeds an ASCII literal.
\<close>

type_synonym ustr = "nat list"

definition u :: "string \<Rightarrow> ustr" where
  "u s = map of_char s"

text \<open>
  What CPython knows about single code points lives in its Unicode tables, which are not part
  of the repository. The functions below take the tables as a parameter:
  \<^item> \<open>u_space\<close>: \<open>str.isspace\<close> of one code point (used by \<open>str.strip\<close> and by \<open>\s\<close>);
  \<^item> \<open>u_decimal\<close>: the class \<open>\d\<close> (category Nd), and \<open>u_digit\<close> the value \<open>int\<close> gives it;
  \<^item> \<open>u_word\<close>: the class \<open>\w\<close> that decides \<open>\b\<close>;
  \<^item> \<open>u_lower\<close>: \<open>str.lower\<close> of a whole string (it is not character-wise in general);
  \<^item> \<open>u_ieq p c\<close>: whether the pattern literal \<open>p\<close> matches the text character \<open>c\<close> under
    \<open>re.IGNORECASE\<close>.
\<close>

record unicode_db =
  u_space :: "nat \<Rightarrow> bool"
  u_decimal :: "nat \<Rightarrow> bool"
  u_digit :: "nat \<Rightarrow> nat"
  u_word :: "nat \<Rightarrow> bool"
  u_lower :: "ustr \<Rightarrow> ustr"
  u_ieq :: "nat \<Rightarrow> nat \<Rightarrow> bool"

text \<open>
  The repository's own strings, and the inputs evaluated below, lie in two ranges: ASCII, and
  the CJK Unified Ideographs U+4E00..U+9FA5, which are letters without case. \<open>plain\<close> is
  membership in these ranges, and the functions that follow are CPython's tables there.
\<close>

definition plain :: "nat \<Rightarrow> bool" where
  "plain c = (c < 128 \<or> (19968 \<le> c \<and> c \<le> 40869))"

definition ascii_lower :: "nat \<Rightarrow> nat" where
  "ascii_lower c = (if 65 \<le> c \<and> c \<le> 90 then c + 32 else c)"

definition ascii_digit :: "nat \<Rightarrow> bool" where
  "ascii_digit c = (48 \<le> c \<and> c \<le> 57)"

definition cpython_space :: "nat \<Rightarrow> bool" where
  "cpython_space c =
     ((9 \<le> c \<and> c \<le> 13) \<or> (28 \<le> c \<and> c \<le> 32) \<or> c = 133 \<or> c = 160 \<or> c = 5760 \<or>
      (8192 \<le> c \<and> c \<le> 8202) \<or> c = 8232 \<or> c = 8233 \<or> c = 8239 \<or> c = 8287 \<or> c = 12288)"

definition cpython_word :: "nat \<Rightarrow> bool" where
  "cpython_word c =
     (ascii_digit c \<or> (65 \<le> c \<and> c \<le> 90) \<or> (97 \<le> c \<and> c \<le> 122) \<or> c = 95 \<or>
      (19968 \<le> c \<and> c \<le> 40869))"

definition cpython :: unicode_db where
  "cpython =
     \<lparr> u_space = cpython_space,
       u_decimal = ascii_digit,
       u_digit = (\<lambda>c. c - 48),
       u_word = cpython_word,
       u_lower = map ascii_lower,
       u_ieq = (\<lambda>p c. ascii_lower p = ascii_lower c) \<rparr>"

text \<open>
  Tables that are CPython's on the plain characters. Results at concrete inputs are proved
  for every such table, so they do not depend on what the tables say elsewhere; \<open>cpython\<close>
  is one of them, and what it says of a character that is not plain (not a digit, not a
  letter, without case) is used nowhere.
\<close>

definition cpython_like :: "unicode_db \<Rightarrow> bool" where
  "cpython_like U =
     ((\<forall>c. plain c \<longrightarrow> u_space U c = cpython_space c) \<and>
      (\<forall>c. plain c \<longrightarrow> u_decimal U c = ascii_digit c) \<and>
      (\<forall>c. ascii_digit c \<longrightarrow> u_digit U c = c - 48) \<and>
      (\<forall>c. plain c \<longrightarrow> u_word U c = cpython_word c) \<and>
      (\<forall>s. list_all plain s \<longrightarrow> u_lower U s = map ascii_lower s) \<and>
      (\<forall>p c. plain p \<longrightarrow> plain c \<longrightarrow> u_ieq U p c = (ascii_lower p = ascii_lower c)))"

text \<open>\<open>text.split('\n')\<close>: never empty, one more piece than there are newlines.\<close>

fun split_nl :: "ustr \<Rightarrow> ustr list" where
  "split_nl [] = [[]]"
| "split_nl (c # cs) =
     (if c = 10 then [] # split_nl cs
      else (case split_nl cs of [] \<Rightarrow> [[c]] | l # ls \<Rightarrow> (c # l) # ls))"

text \<open>\<open>line.strip()\<close>: white space removed at both ends.\<close>

definition strip :: "unicode_db \<Rightarrow> ustr \<Rightarrow> ustr" where
  "strip U s = rev (dropWhile (u_space U) (rev (dropWhile (u_space U) s)))"

text \<open>\<open>sub in s\<close>: \<open>sub\<close> occurs in \<open>s\<close> as a contiguous piece.\<close>

fun starts_with :: "ustr \<Rightarrow> ustr \<Rightarrow> bool" where
  "starts_with [] s = True"
| "starts_with (p # ps) [] = False"
| "starts_with (p # ps) (c # cs) = (p = c \<and> starts_with ps cs)"

fun py_in :: "ustr \<Rightarrow> ustr \<Rightarrow> bool" where
  "py_in sub [] = (sub = [])"
| "py_in sub (c # cs) = (starts_with sub (c # cs) \<or> py_in sub cs)"

text \<open>\<open>s.replace(',', '')\<close>: every comma removed.\<close>

definition remove_commas :: "ustr \<Rightarrow> ustr" where
  "remove_commas s = filter (\<lambda>c. c \<noteq> 44) s"

section \<open>Regular expressions\<close>

text \<open>
  The fragment of Python's \<open>re\<close> that the sources (and \<open>datetime.strptime\<close>) use: literals,
  classes, \<open>^\<close>, \<open>\b\<close>, sequence, alternation, a greedy counted repetition of a
  one-character item, and capture groups. \<open>re\<close> is a backtracking matcher; \<open>rmatch\<close> returns
  every way the expression can match at the cursor, in the order backtracking tries them, so
  the head of the list is the match \<open>re\<close> reports.
\<close>

datatype citem = CChar nat | CRange nat nat | CDigit | CSpace

datatype atom = Lit nat | In "citem list"

datatype regex =
    Eps
  | Atom atom
  | Bol
  | WordB
  | Seq regex regex
  | Alt regex regex
  | Rep nat "nat option" atom
  | Group string regex

text \<open>A cursor is the character before the position (if any) and the text from it on.\<close>

type_synonym cursor = "nat option \<times> ustr"

type_synonym groups = "(string \<times> ustr) list"

fun citem_ok :: "unicode_db \<Rightarrow> citem \<Rightarrow> nat \<Rightarrow> bool" where
  "citem_ok U (CChar p) c = (p = c)"
| "citem_ok U (CRange lo hi) c = (lo \<le> c \<and> c \<le> hi)"
| "citem_ok U CDigit c = u_decimal U c"
| "citem_ok U CSpace c = u_space U c"

fun atom_ok :: "unicode_db \<Rightarrow> bool \<Rightarrow> atom \<Rightarrow> nat \<Rightarrow> bool" where
  "atom_ok U ic (Lit p) c = (if ic then u_ieq U p c else p = c)"
| "atom_ok U ic (In items) c = list_ex (\<lambda>it. citem_ok U it c) items"

text \<open>The length of the longest run of matching characters, at most the bound.\<close>

fun run :: "(nat \<Rightarrow> bool) \<Rightarrow> nat option \<Rightarrow> ustr \<Rightarrow> nat" where
  "run ok bound [] = 0"
| "run ok bound (c # cs) =
     (if bound = Some 0 \<or> \<not> ok c then 0
      else Suc (run ok (map_option (\<lambda>n. n - 1) bound) cs))"

fun advance :: "nat \<Rightarrow> cursor \<Rightarrow> cursor" where
  "advance 0 cur = cur"
| "advance (Suc n) (p, []) = (p, [])"
| "advance (Suc n) (p, c # cs) = advance n (Some c, cs)"

text \<open>
  \<open>\b\<close> holds where exactly one of the character before the position and the character at
  it is a word character; the two ends of the text count as non-word characters.
\<close>

definition is_word_opt :: "unicode_db \<Rightarrow> nat option \<Rightarrow> bool" where
  "is_word_opt U x = (case x of None \<Rightarrow> False | Some c \<Rightarrow> u_word U c)"

definition first_opt :: "ustr \<Rightarrow> nat option" where
  "first_opt s = (case s of [] \<Rightarrow> None | c # _ \<Rightarrow> Some c)"

definition at_boundary :: "unicode_db \<Rightarrow> nat option \<Rightarrow> ustr \<Rightarrow> bool" where
  "at_boundary U p s = (is_word_opt U p \<noteq> is_word_opt U (first_opt s))"

text \<open>The character before the position reached by reading \<open>s\<close> from a position after \<open>p\<close>.\<close>

definition last_opt :: "nat option \<Rightarrow> ustr \<Rightarrow> nat option" where
  "last_opt p s = (if s = [] then p else Some (last s))"

definition consumed :: "ustr \<Rightarrow> ustr \<Rightarrow> ustr" where
  "consumed before after = take (length before - length after) before"

fun rmatch :: "unicode_db \<Rightarrow> bool \<Rightarrow> regex \<Rightarrow> cursor \<times> groups \<Rightarrow> (cursor \<times> groups) list" where
  "rmatch U ic Eps st = [st]"
| "rmatch U ic (Atom a) ((p, s), g) =
     (case s of [] \<Rightarrow> []
      | c # cs \<Rightarrow> if atom_ok U ic a c then [((Some c, cs), g)] else [])"
| "rmatch U ic Bol ((p, s), g) = (if p = None then [((p, s), g)] else [])"
| "rmatch U ic WordB ((p, s), g) = (if at_boundary U p s then [((p, s), g)] else [])"
| "rmatch U ic (Seq r1 r2) st = concat (map (rmatch U ic r2) (rmatch U ic r1 st))"
| "rmatch U ic (Alt r1 r2) st = rmatch U ic r1 st @ rmatch U ic r2 st"
| "rmatch U ic (Rep lo hi a) ((p, s), g) =
     map (\<lambda>j. (advance j (p, s), g)) (rev [lo ..< Suc (run (atom_ok U ic a) hi s)])"
| "rmatch U ic (Group name r) ((p, s), g) =
     map (\<lambda>((p', s'), g'). ((p', s'), AList.update name (consumed s s') g'))
         (rmatch U ic r ((p, s), g))"

text \<open>A match object: the whole matched text (\<open>group()\<close>) and the groups.\<close>

record match =
  m_text :: ustr
  m_groups :: groups

definition match_at :: "unicode_db \<Rightarrow> bool \<Rightarrow> regex \<Rightarrow> cursor \<Rightarrow> match option" where
  "match_at U ic r cur =
     (case rmatch U ic r (cur, []) of
        [] \<Rightarrow> None
      | ((p', s'), g) # _ \<Rightarrow> Some \<lparr> m_text = consumed (snd cur) s', m_groups = g \<rparr>)"

text \<open>\<open>re.search\<close> tries every start position from the left; \<open>re.match\<close> only the first.\<close>

fun search_from :: "unicode_db \<Rightarrow> bool \<Rightarrow> regex \<Rightarrow> nat option \<Rightarrow> ustr \<Rightarrow> match option" where
  "search_from U ic r p [] = match_at U ic r (p, [])"
| "search_from U ic r p (c # cs) =
     (case match_at U ic r (p, c # cs) of
        Some m \<Rightarrow> Some m
      | None \<Rightarrow> search_from U ic r (Some c) cs)"

definition re_search :: "unicode_db \<Rightarrow> bool \<Rightarrow> regex \<Rightarrow> ustr \<Rightarrow> match option" where
  "re_search U ic r s = search_from U ic r None s"

definition re_match :: "unicode_db \<Rightarrow> bool \<Rightarrow> regex \<Rightarrow> ustr \<Rightarrow> match option" where
  "re_match U ic r s = match_at U ic r (None, s)"

definition group :: "match \<Rightarrow> string \<Rightarrow> ustr option" where
  "group m name = map_of (m_groups m) name"

text \<open>Helpers to write patterns as the sources do.\<close>

definition cat :: "regex list \<Rightarrow> regex" where
  "cat rs = foldr Seq rs Eps"

definition lit :: "ustr \<Rightarrow> regex" where
  "lit s = cat (map (\<lambda>c. Atom (Lit c)) s)"


definition alts :: "regex list \<Rightarrow> regex" where
  "alts rs = foldr Alt rs (Atom (In []))"

definition digit :: atom where
  "digit = In [CDigit]"

definition rng :: "char \<Rightarrow> char \<Rightarrow> atom" where
  "rng a b = In [CRange (of_char a) (of_char b)]"

definition chr :: "char \<Rightarrow> atom" where
  "chr c = Lit (of_char c)"

section \<open>Library calls that raise\<close>

datatype exn = ValueError | InvalidOperation | AttributeError

definition bind_exn :: "exn + 'a \<Rightarrow> ('a \<Rightarrow> exn + 'b) \<Rightarrow> exn + 'b" where
  "bind_exn x f = (case x of Inl e \<Rightarrow> Inl e | Inr v \<Rightarrow> f v)"

text \<open>
  \<open>int(s)\<close> on a string of decimal digits, white space around it ignored; \<open>ValueError\<close>
  otherwise (signs and underscores do not occur in what \<open>strptime\<close> passes).
\<close>

definition digits_value :: "unicode_db \<Rightarrow> ustr \<Rightarrow> nat" where
  "digits_value U s = foldl (\<lambda>n c. 10 * n + u_digit U c) 0 s"

definition py_int :: "unicode_db \<Rightarrow> ustr \<Rightarrow> exn + nat" where
  "py_int U s =
     (let t = strip U s in
      if t \<noteq> [] \<and> list_all (u_decimal U) t then Inr (digits_value U t) else Inl ValueError)"

subsection \<open>\<open>datetime.strptime\<close>\<close>

record datetime =
  dt_year :: nat
  dt_month :: nat
  dt_day :: nat
  dt_hour :: nat
  dt_minute :: nat
  dt_second :: nat

definition is_leap :: "nat \<Rightarrow> bool" where
  "is_leap y = (y mod 4 = 0 \<and> (y mod 100 \<noteq> 0 \<or> y mod 400 = 0))"

definition days_in_month :: "nat \<Rightarrow> nat \<Rightarrow> nat" where
  "days_in_month y m =
     (if m = 2 then (if is_leap y then 29 else 28)
      else if m = 4 \<or> m = 6 \<or> m = 9 \<or> m = 11 then 30 else 31)"

text \<open>The constructor of a date at midnight: \<open>ValueError\<close> outside the calendar.\<close>

definition make_datetime :: "nat \<Rightarrow> nat \<Rightarrow> nat \<Rightarrow> exn + datetime" where
  "make_datetime y m d =
     (if 1 \<le> y \<and> y \<le> 9999 \<and> 1 \<le> m \<and> m \<le> 12 \<and> 1 \<le> d \<and> d \<le> days_in_month y m
      then Inr \<lparr> dt_year = y, dt_month = m, dt_day = d, dt_hour = 0, dt_minute = 0, dt_second = 0 \<rparr>
      else Inl ValueError)"

text \<open>
  The six formats of the source are built from four directives and two separators.
  \<open>strptime\<close> turns a format into a regular expression with one named group per directive
  (the expressions below are the library's), matches it at the start of the string, and
  raises \<open>ValueError\<close> when it does not match or does not reach the end of the string.
\<close>

datatype fitem = FY | Fy | Fm | Fd | FDash | FSlash

fun directive_regex :: "fitem \<Rightarrow> regex" where
  "directive_regex FY = Group ''Y'' (cat [Atom digit, Atom digit, Atom digit, Atom digit])"
| "directive_regex Fy = Group ''y'' (cat [Atom digit, Atom digit])"
| "directive_regex Fm =
     Group ''m'' (alts [cat [Atom (chr CHR ''1''), Atom (rng CHR ''0'' CHR ''2'')],
                        cat [Atom (chr CHR ''0''), Atom (rng CHR ''1'' CHR ''9'')],
                        Atom (rng CHR ''1'' CHR ''9'')])"
| "directive_regex Fd =
     Group ''d'' (alts [cat [Atom (chr CHR ''3''), Atom (rng CHR ''0'' CHR ''1'')],
                        cat [Atom (rng CHR ''1'' CHR ''2''), Atom digit],
                        cat [Atom (chr CHR ''0''), Atom (rng CHR ''1'' CHR ''9'')],
                        Atom (rng CHR ''1'' CHR ''9''),
                        cat [Atom (chr CHR '' ''), Atom (rng CHR ''1'' CHR ''9'')]])"
| "directive_regex FDash = Atom (chr CHR ''-'')"
| "directive_regex FSlash = Atom (chr CHR ''/'')"

definition format_regex :: "fitem list \<Rightarrow> regex" where
  "format_regex fmt = cat (map directive_regex fmt)"

definition found_year :: "unicode_db \<Rightarrow> match \<Rightarrow> exn + nat" where
  "found_year U found =
     (case group found ''Y'' of
        Some s \<Rightarrow> py_int U s
      | None \<Rightarrow>
          (case group found ''y'' of
             Some s \<Rightarrow> bind_exn (py_int U s) (\<lambda>y. Inr (if y \<le> 68 then y + 2000 else y + 1900))
           | None \<Rightarrow> Inr 1900))"

definition found_field :: "unicode_db \<Rightarrow> match \<Rightarrow> string \<Rightarrow> exn + nat" where
  "found_field U found name = (case group found name of Some s \<Rightarrow> py_int U s | None \<Rightarrow> Inr 1)"

definition strptime :: "unicode_db \<Rightarrow> ustr \<Rightarrow> fitem list \<Rightarrow> exn + datetime" where
  "strptime U data_string fmt =
     (case re_match U True (format_regex fmt) data_string of
        None \<Rightarrow> Inl ValueError
      | Some found \<Rightarrow>
          if length data_string \<noteq> length (m_text found) then Inl ValueError
          else bind_exn (found_year U found) (\<lambda>y.
               bind_exn (found_field U found ''m'') (\<lambda>m.
               bind_exn (found_field U found ''d'') (\<lambda>d. make_datetime y m d))))"

subsection \<open>\<open>Decimal\<close>\<close>

text \<open>
  An exact decimal: sign, coefficient and exponent, so that \<open>Decimal('5.00')\<close> is
  \<open>500\<close> with exponent \<open>-2\<close>. \<open>py_Decimal\<close> is the constructor on the strings the
  extractor can hand it, digits with at most one point: the integer and the fraction digits
  give the coefficient, the number of fraction digits the exponent, and a string without any
  digit raises \<open>InvalidOperation\<close>. (Signs, exponents, \<open>NaN\<close>, \<open>Infinity\<close> and underscores,
  which \<open>Decimal\<close> reads too, cannot come out of the capture group \<open>[0-9,]+\.?\d*\<close>.)
\<close>

record decimal =
  d_sign :: nat
  d_coeff :: nat
  d_exp :: int

definition py_Decimal :: "unicode_db \<Rightarrow> ustr \<Rightarrow> exn + decimal" where
  "py_Decimal U s =
     (let ip = takeWhile (u_decimal U) s; rest = dropWhile (u_decimal U) s in
      case rest of
        [] \<Rightarrow> if ip = [] then Inl InvalidOperation
              else Inr \<lparr> d_sign = 0, d_coeff = digits_value U ip, d_exp = 0 \<rparr>
      | c # fp \<Rightarrow>
          if c = 46 \<and> list_all (u_decimal U) fp \<and> (ip \<noteq> [] \<or> fp \<noteq> [])
          then Inr \<lparr> d_sign = 0, d_coeff = digits_value U (ip @ fp), d_exp = - int (length fp) \<rparr>
          else Inl InvalidOperation)"


section \<open>The text interpreter (\<open>services/ocr_service.py\<close>)\<close>

datatype pyval = PyDecimal decimal | PyStr ustr

record ReceiptData =
  date :: "datetime option"
  merchant :: "ustr option"
  category :: "ustr option"
  amount :: "pyval option"
  currency :: "pyval option"
  items :: "ustr list option"
  raw_text :: "ustr option"

text \<open>\<open>ReceiptData()\<close>: every field at its default.\<close>

definition ReceiptData_new :: ReceiptData where
  "ReceiptData_new =
     \<lparr> date = None, merchant = None, category = None, amount = None, currency = None,
       items = Some [], raw_text = None \<rparr>"

subsection \<open>\<open>_extract_date\<close>\<close>

text \<open>
  \<^verbatim>\<open>
  date_patterns = [
      r'\d{4}[-/]\d{1,2}[-/]\d{1,2}',
      r'\d{1,2}[-/]\d{1,2}[-/]\d{4}',
      r'\d{1,2}[-/]\d{1,2}[-/]\d{2}',
  ]
  for pattern in date_patterns:
      match = re.search(pattern, text)
      if match:
          try:
              date_str = match.group()
              for fmt in ['%Y-%m-%d', '%Y/%m/%d', '%d-%m-%Y', '%m/%d/%Y', '%d-%m-%y', '%m/%d/%y']:
                  try:
                      return datetime.strptime(date_str, fmt)
                  except ValueError:
                      continue
          except:
              continue
  return None
  \<close>
\<close>

definition date_sep :: atom where
  "date_sep = In [CChar (of_char CHR ''-''), CChar (of_char CHR ''/'')]"

definition date_patterns :: "regex list" where
  "date_patterns =
     [cat [Rep 4 (Some 4) digit, Atom date_sep, Rep 1 (Some 2) digit, Atom date_sep, Rep 1 (Some 2) digit],
      cat [Rep 1 (Some 2) digit, Atom date_sep, Rep 1 (Some 2) digit, Atom date_sep, Rep 4 (Some 4) digit],
      cat [Rep 1 (Some 2) digit, Atom date_sep, Rep 1 (Some 2) digit, Atom date_sep, Rep 2 (Some 2) digit]]"

definition date_formats :: "fitem list list" where
  "date_formats =
     [[FY, FDash, Fm, FDash, Fd],
      [FY, FSlash, Fm, FSlash, Fd],
      [Fd, FDash, Fm, FDash, FY],
      [Fm, FSlash, Fd, FSlash, FY],
      [Fd, FDash, Fm, FDash, Fy],
      [Fm, FSlash, Fd, FSlash, Fy]]"

text \<open>
  The inner loop over the formats: the first format that parses is returned (\<open>Inr (Some d)\<close>),
  a \<open>ValueError\<close> goes on to the next format, any other exception leaves the loop
  (\<open>Inl\<close>), and the loop can run out (\<open>Inr None\<close>).
\<close>

fun try_formats :: "unicode_db \<Rightarrow> ustr \<Rightarrow> fitem list list \<Rightarrow> exn + datetime option" where
  "try_formats U date_str [] = Inr None"
| "try_formats U date_str (fmt # fmts) =
     (case strptime U date_str fmt of
        Inr d \<Rightarrow> Inr (Some d)
      | Inl ValueError \<Rightarrow> try_formats U date_str fmts
      | Inl e \<Rightarrow> Inl e)"

text \<open>
  The outer loop over the patterns. A pattern that does not occur, a match that no format
  parses, and an exception caught by the bare \<open>except\<close> all go on to the next pattern.
\<close>

fun extract_date_loop :: "unicode_db \<Rightarrow> ustr \<Rightarrow> regex list \<Rightarrow> exn + datetime option" where
  "extract_date_loop U text [] = Inr None"
| "extract_date_loop U text (pattern # patterns) =
     (case re_search U False pattern text of
        None \<Rightarrow> extract_date_loop U text patterns
      | Some m \<Rightarrow>
          (case try_formats U (m_text m) date_formats of
             Inr (Some d) \<Rightarrow> Inr (Some d)
           | Inr None \<Rightarrow> extract_date_loop U text patterns
           | Inl e \<Rightarrow> extract_date_loop U text patterns))"

definition extract_date :: "unicode_db \<Rightarrow> ustr \<Rightarrow> exn + datetime option" where
  "extract_date U text = extract_date_loop U text date_patterns"

subsection \<open>\<open>_extract_merchant\<close>\<close>

text \<open>
  \<^verbatim>\<open>
  lines = text.split('\n')
  for line in lines[:5]:
      line = line.strip()
      if len(line) > 2 and not re.match(r'^\d+[-/]\d+[-/]\d+', line):
          skip_words = ['receipt', 'invoice', 'date', 'time', 'total', 'amount', 'tax', 'subtotal', 'sum']
          if not any(word in line.lower() for word in skip_words):
              if not re.search(r'\$\d+', line) and not re.search(r'\d+\.\d+', line):
                  return line
  return None
  \<close>
\<close>

definition leading_date :: regex where
  "leading_date =
     cat [Bol, Rep 1 None digit, Atom date_sep, Rep 1 None digit, Atom date_sep, Rep 1 None digit]"

definition dollar_digits :: regex where
  "dollar_digits = cat [Atom (chr CHR ''$''), Rep 1 None digit]"

definition decimal_number :: regex where
  "decimal_number = cat [Rep 1 None digit, Atom (chr CHR ''.''), Rep 1 None digit]"

definition skip_words :: "ustr list" where
  "skip_words =
     [u ''receipt'', u ''invoice'', u ''date'', u ''time'', u ''total'', u ''amount'', u ''tax'',
      u ''subtotal'', u ''sum'']"

text \<open>The three nested conditions a stripped line has to pass to be returned.\<close>

definition merchant_line_ok :: "unicode_db \<Rightarrow> ustr \<Rightarrow> bool" where
  "merchant_line_ok U line =
     (if length line > 2 \<and> re_match U False leading_date line = None then
        if \<not> list_ex (\<lambda>word. py_in word (u_lower U line)) skip_words then
          re_search U False dollar_digits line = None \<and>
          re_search U False decimal_number line = None
        else False
      else False)"

fun merchant_loop :: "unicode_db \<Rightarrow> ustr list \<Rightarrow> ustr option" where
  "merchant_loop U [] = None"
| "merchant_loop U (line # lines) =
     (if merchant_line_ok U (strip U line) then Some (strip U line)
      else merchant_loop U lines)"

definition extract_merchant :: "unicode_db \<Rightarrow> ustr \<Rightarrow> exn + ustr option" where
  "extract_merchant U text = Inr (merchant_loop U (take 5 (split_nl text)))"

subsection \<open>\<open>_extract_amount_and_currency\<close>\<close>

text \<open>
  The five patterns, searched with \<open>re.IGNORECASE\<close>; the last ends in the character U+5143,
  and the last three of \<open>total_keywords\<close> are U+5408 U+8A08, U+7E3D U+8A08 and
  U+5C0F U+8A08.
  \<^verbatim>\<open>
  currency_patterns = [
      (r'NT\$?\s*([0-9,]+\.?\d*)', 'NTD'),
      (r'HK\$?\s*([0-9,]+\.?\d*)', 'HKD'),
      (r'US\$?\s*([0-9,]+\.?\d*)', 'USD'),
      (r'\$\s*([0-9,]+\.?\d*)', 'USD'),
      (r'([0-9,]+\.?\d*)\s*<U+5143>', 'NTD'),
  ]
  total_keywords = ['total', 'amount', 'sum', ...]
  lines = text.split('\n')
  for line in lines:
      line_lower = line.lower()
      if 'total' in line_lower and 'subtotal' not in line_lower:
          for pattern, currency in currency_patterns:
              match = re.search(pattern, line, re.IGNORECASE)
              if match:
                  amount_str = match.group(1).replace(',', '')
                  try:
                      amount = Decimal(amount_str)
                      return {'amount': amount, 'currency': currency}
                  except:
                      continue
  for line in lines:
      line_lower = line.lower()
      if any(keyword in line_lower for keyword in total_keywords):
          (the same loop over currency_patterns)
  (the same loop over currency_patterns, searching text)
  return {}
  \<close>
\<close>

definition number_group :: regex where
  "number_group =
     Group ''1'' (cat [Rep 1 None (In [CRange (of_char CHR ''0'') (of_char CHR ''9''), CChar (of_char CHR '','')]),
                       Rep 0 (Some 1) (chr CHR ''.''), Rep 0 None digit])"

definition yuan :: nat where
  "yuan = 20803"

definition currency_patterns :: "(regex \<times> ustr) list" where
  "currency_patterns =
     [(cat [lit (u ''NT''), Rep 0 (Some 1) (chr CHR ''$''), Rep 0 None (In [CSpace]), number_group], u ''NTD''),
      (cat [lit (u ''HK''), Rep 0 (Some 1) (chr CHR ''$''), Rep 0 None (In [CSpace]), number_group], u ''HKD''),
      (cat [lit (u ''US''), Rep 0 (Some 1) (chr CHR ''$''), Rep 0 None (In [CSpace]), number_group], u ''USD''),
      (cat [Atom (chr CHR ''$''), Rep 0 None (In [CSpace]), number_group], u ''USD''),
      (cat [number_group, Rep 0 None (In [CSpace]), Atom (Lit yuan)], u ''NTD'')]"

definition total_keywords :: "ustr list" where
  "total_keywords =
     [u ''total'', u ''amount'', u ''sum'', [21512, 35336], [32317, 35336], [23567, 35336]]"

text \<open>
  A Python \<open>dict\<close> with string keys, in insertion order; \<open>d.get(k)\<close> is \<open>map_of d k\<close>.
\<close>

type_synonym pydict = "(string \<times> pyval) list"

text \<open>
  The loop over \<open>currency_patterns\<close>, which the source runs on a line (passes 1 and 2) and on
  the whole text (pass 3). \<open>Inr (Some d)\<close> is the \<open>return\<close> and \<open>Inr None\<close> the end of the
  loop; a pattern that does not occur, and a captured string that \<open>Decimal\<close> rejects (the
  bare \<open>except\<close>), go on to the next pattern. \<open>match.group(1).replace\<close> stands before the
  \<open>try\<close>: were group 1 unset, \<open>group(1)\<close> would be \<open>None\<close> and the call would raise
  \<open>AttributeError\<close> out of the function.
\<close>

fun try_patterns :: "unicode_db \<Rightarrow> ustr \<Rightarrow> (regex \<times> ustr) list \<Rightarrow> exn + pydict option" where
  "try_patterns U s [] = Inr None"
| "try_patterns U s ((pattern, cur) # rest) =
     (case re_search U True pattern s of
        None \<Rightarrow> try_patterns U s rest
      | Some m \<Rightarrow>
          (case group m ''1'' of
             None \<Rightarrow> Inl AttributeError
           | Some g \<Rightarrow>
               (case py_Decimal U (remove_commas g) of
                  Inr a \<Rightarrow> Inr (Some [(''amount'', PyDecimal a), (''currency'', PyStr cur)])
                | Inl e \<Rightarrow> try_patterns U s rest)))"

fun first_pass :: "unicode_db \<Rightarrow> ustr list \<Rightarrow> exn + pydict option" where
  "first_pass U [] = Inr None"
| "first_pass U (line # lines) =
     (if py_in (u ''total'') (u_lower U line) \<and> \<not> py_in (u ''subtotal'') (u_lower U line) then
        (case try_patterns U line currency_patterns of
           Inl e \<Rightarrow> Inl e
         | Inr (Some d) \<Rightarrow> Inr (Some d)
         | Inr None \<Rightarrow> first_pass U lines)
      else first_pass U lines)"

fun second_pass :: "unicode_db \<Rightarrow> ustr list \<Rightarrow> exn + pydict option" where
  "second_pass U [] = Inr None"
| "second_pass U (line # lines) =
     (if list_ex (\<lambda>keyword. py_in keyword (u_lower U line)) total_keywords then
        (case try_patterns U line currency_patterns of
           Inl e \<Rightarrow> Inl e
         | Inr (Some d) \<Rightarrow> Inr (Some d)
         | Inr None \<Rightarrow> second_pass U lines)
      else second_pass U lines)"

text \<open>The three passes; each later one runs only when the one before it ran out.\<close>

definition or_else :: "exn + pydict option \<Rightarrow> (exn + pydict) \<Rightarrow> exn + pydict" where
  "or_else pass later =
     (case pass of Inl e \<Rightarrow> Inl e | Inr (Some d) \<Rightarrow> Inr d | Inr None \<Rightarrow> later)"

definition extract_amount_and_currency :: "unicode_db \<Rightarrow> ustr \<Rightarrow> exn + pydict" where
  "extract_amount_and_currency U text =
     (let lines = split_nl text in
      or_else (first_pass U lines)
        (or_else (second_pass U lines)
           (or_else (try_patterns U text currency_patterns) (Inr []))))"

subsection \<open>\<open>_extract_items\<close>\<close>

text \<open>
  The pattern is \<open>total|amount|...|...\<close>, its last two alternatives U+5408 U+8A08 and
  U+7E3D U+8A08.
  \<^verbatim>\<open>
  lines = text.split('\n')
  items = []
  for line in lines:
      line = line.strip()
      if (len(line) > 2 and
          not re.match(r'^\d+[-/]\d+[-/]\d+', line) and
          not re.search(r'total|amount|...|...', line.lower())):
          items.append(line)
  return items[:10]
  \<close>
\<close>

definition total_words :: regex where
  "total_words = alts [lit (u ''total''), lit (u ''amount''), lit [21512, 35336], lit [32317, 35336]]"

definition item_line_ok :: "unicode_db \<Rightarrow> ustr \<Rightarrow> bool" where
  "item_line_ok U line =
     (length line > 2 \<and> re_match U False leading_date line = None \<and>
      re_search U False total_words (u_lower U line) = None)"

fun items_loop :: "unicode_db \<Rightarrow> ustr list \<Rightarrow> ustr list" where
  "items_loop U [] = []"
| "items_loop U (line # lines) =
     (if item_line_ok U (strip U line) then strip U line # items_loop U lines
      else items_loop U lines)"

definition extract_items :: "unicode_db \<Rightarrow> ustr \<Rightarrow> exn + ustr list" where
  "extract_items U text = Inr (take 10 (items_loop U (split_nl text)))"

subsection \<open>\<open>_parse_receipt_text\<close>\<close>

text \<open>
  The four extractions in the source's order; an exception of any of them would leave the
  function, since it has no handler of its own.
\<close>

definition parse_receipt_text :: "unicode_db \<Rightarrow> ustr \<Rightarrow> exn + ReceiptData" where
  "parse_receipt_text U text =
     bind_exn (extract_date U text) (\<lambda>d.
     bind_exn (extract_merchant U text) (\<lambda>m.
     bind_exn (extract_amount_and_currency U text) (\<lambda>amount_info.
     bind_exn (extract_items U text) (\<lambda>its.
       Inr (ReceiptData_new
              \<lparr> date := d, merchant := m,
                amount := map_of amount_info ''amount'',
                currency := map_of amount_info ''currency'',
                items := Some its \<rparr>)))))"


section \<open>The category classifier (\<open>config/categories.py\<close>)\<close>

text \<open>
  A rule is the dictionary \<open>{'keywords': [...], 'merchants': [...]}\<close>. The two rule tables
  are Python dictionaries, which keep insertion order: an association list, where storing
  under a key that is present replaces the value in place and a new key goes to the end
  (\<open>AList.update\<close>).
\<close>

record rule =
  "keywords" :: "ustr list"
  merchants :: "ustr list"

type_synonym rules = "(ustr \<times> rule) list"

record CategoryConfig =
  default_categories :: rules
  custom_categories :: rules

text \<open>\<open>__init__\<close>: the built-in table (Chinese entries as code points) and no custom rule.\<close>

definition builtin_categories :: rules where
  "builtin_categories =
     [(u ''Food & Dining'',
       \<lparr> keywords = [u ''restaurant'', [39184, 24307], u ''cafe'',
                     [21654, 21857], u ''food'', [39135, 29289], u ''dining'',
                     u ''meal'', [39151, 24215], u ''bar'', [37202, 21543]],
         merchants = [u ''mcdonalds'', u ''starbucks'', u ''subway'',
                      [40613, 30070, 21214], [26143, 24052, 20811]] \<rparr>),
      (u ''Transportation'',
       \<lparr> keywords = [u ''uber'', u ''taxi'', [35336, 31243, 36554], u ''mrt'',
                     [25463, 36939], u ''bus'', [20844, 36554], u ''train'',
                     [28779, 36554], u ''parking'', [20572, 36554]],
         merchants = [u ''uber'', u ''grab'', u ''taxi'', u ''mrt''] \<rparr>),
      (u ''Shopping'',
       \<lparr> keywords = [u ''mart'', [36229, 24066], u ''store'', [21830, 24215],
                     u ''shop'', [36092, 29289], u ''market'', [24066, 22580],
                     u ''mall'', [21830, 22580]],
         merchants = [u ''7-eleven'', u ''familymart'', u ''walmart'',
                      u ''target'', [20840, 23478], u ''7-11''] \<rparr>),
      (u ''Utilities'',
       \<lparr> keywords = [u ''electric'', [38651, 21147], u ''water'',
                     [27700, 36027], u ''gas'', [29926, 26031],
                     u ''internet'', [32178, 36335], u ''phone'',
                     [38651, 35441]],
         merchants = [[21488, 38651], [33258, 20358, 27700],
                      [20013, 33775, 38651, 20449]] \<rparr>),
      (u ''Healthcare'',
       \<lparr> keywords = [u ''hospital'', [37291, 38498], u ''clinic'',
                     [35386, 25152], u ''pharmacy'', [34277, 23616],
                     u ''doctor'', [37291, 29983], u ''medical'',
                     [37291, 30274]],
         merchants = [u ''hospital'', u ''clinic''] \<rparr>),
      (u ''Entertainment'',
       \<lparr> keywords = [u ''movie'', [38651, 24433], u ''cinema'',
                     [25138, 38498], u ''game'', [36938, 25138], u ''book'',
                     [26360], u ''music'', [38899, 27138]],
         merchants = [u ''netflix'', u ''spotify'', u ''cinema''] \<rparr>),
      (u ''Office Supplies'',
       \<lparr> keywords = [u ''stationery'', [25991, 20855], u ''office'',
                     [36774, 20844], u ''paper'', [32025, 24373], u ''pen'',
                     [31558], u ''computer'', [38651, 33126]],
         merchants = [u ''office depot'', u ''staples''] \<rparr>),
      (u ''Other'',
       \<lparr> keywords = [],
         merchants = [] \<rparr>)]"

definition CategoryConfig_new :: CategoryConfig where
  "CategoryConfig_new = \<lparr> default_categories = builtin_categories, custom_categories = [] \<rparr>"

text \<open>\<open>{**a, **b}\<close>: the items of \<open>a\<close>, then those of \<open>b\<close> stored one after the other.\<close>

definition dict_merge :: "('k \<times> 'v) list \<Rightarrow> ('k \<times> 'v) list \<Rightarrow> ('k \<times> 'v) list" where
  "dict_merge a b = fold (\<lambda>(k, v). AList.update k v) b a"

definition get_all_categories :: "CategoryConfig \<Rightarrow> rules" where
  "get_all_categories cfg = dict_merge (default_categories cfg) (custom_categories cfg)"

definition add_custom_category :: "CategoryConfig \<Rightarrow> ustr \<Rightarrow> ustr list \<Rightarrow> ustr list \<Rightarrow> CategoryConfig" where
  "add_custom_category cfg name kws ms =
     cfg \<lparr> custom_categories :=
             AList.update name \<lparr> keywords = kws, merchants = ms \<rparr> (custom_categories cfg) \<rparr>"

text \<open>
  \<^verbatim>\<open>
  def categorize_receipt(self, receipt_data):
      if not receipt_data.merchant and not receipt_data.raw_text:
          return 'Other'
      merchant = (receipt_data.merchant or '').lower()
      text = (receipt_data.raw_text or '').lower()
      # Check all categories (custom first, then default)
      all_categories = {**self.custom_categories, **self.default_categories}
      for category, config in all_categories.items():
          for merchant_pattern in config['merchants']:
              if merchant_pattern.lower() in merchant:
                  return category
          for keyword in config['keywords']:
              keyword_lower = keyword.lower()
              pattern = r'\b' + re.escape(keyword_lower) + r'\b'
              if re.search(pattern, text) or re.search(pattern, merchant):
                  return category
      return 'Other'

  def get_all_categories(self):
      return {**self.default_categories, **self.custom_categories}

  def add_custom_category(self, name, keywords, merchants):
      self.custom_categories[name] = {'keywords': keywords, 'merchants': merchants}
  \<close>
  The table \<open>categorize_receipt\<close> builds in its local variable \<open>all_categories\<close>:
\<close>

definition all_categories :: "CategoryConfig \<Rightarrow> rules" where
  "all_categories cfg = dict_merge (custom_categories cfg) (default_categories cfg)"

text \<open>
  \<open>r'\b' + re.escape(keyword_lower) + r'\b'\<close>: the escaped keyword matches itself, character
  by character.
\<close>

definition keyword_pattern :: "ustr \<Rightarrow> regex" where
  "keyword_pattern keyword_lower = cat [WordB, lit keyword_lower, WordB]"

definition merchant_hit :: "unicode_db \<Rightarrow> ustr \<Rightarrow> rule \<Rightarrow> bool" where
  "merchant_hit U m config = list_ex (\<lambda>merchant_pattern. py_in (u_lower U merchant_pattern) m) (merchants config)"

definition keyword_hit :: "unicode_db \<Rightarrow> ustr \<Rightarrow> ustr \<Rightarrow> rule \<Rightarrow> bool" where
  "keyword_hit U m text config =
     list_ex (\<lambda>keyword.
        re_search U False (keyword_pattern (u_lower U keyword)) text \<noteq> None \<or>
        re_search U False (keyword_pattern (u_lower U keyword)) m \<noteq> None) (keywords config)"

text \<open>The loop over the table: the merchants of a rule first, then its keywords.\<close>

fun categorize_loop :: "unicode_db \<Rightarrow> ustr \<Rightarrow> ustr \<Rightarrow> rules \<Rightarrow> ustr" where
  "categorize_loop U m text [] = u ''Other''"
| "categorize_loop U m text ((cat_name, config) # rest) =
     (if merchant_hit U m config then cat_name
      else if keyword_hit U m text config then cat_name
      else categorize_loop U m text rest)"

text \<open>\<open>not x\<close> and \<open>x or ''\<close> for an optional string: \<open>None\<close> and \<open>''\<close> are false.\<close>

definition falsy :: "ustr option \<Rightarrow> bool" where
  "falsy x = (x = None \<or> x = Some [])"

definition or_empty :: "ustr option \<Rightarrow> ustr" where
  "or_empty x = (case x of None \<Rightarrow> [] | Some s \<Rightarrow> s)"

definition categorize_receipt :: "unicode_db \<Rightarrow> CategoryConfig \<Rightarrow> ReceiptData \<Rightarrow> ustr" where
  "categorize_receipt U cfg receipt_data =
     (if falsy (merchant receipt_data) \<and> falsy (raw_text receipt_data) then u ''Other''
      else categorize_loop U (u_lower U (or_empty (merchant receipt_data)))
             (u_lower U (or_empty (raw_text receipt_data))) (all_categories cfg))"


text \<open>A Python dictionary holds each key once; both rule tables are dictionaries.\<close>

definition wf_config :: "CategoryConfig \<Rightarrow> bool" where
  "wf_config cfg =
     (distinct (map fst (default_categories cfg)) \<and> distinct (map fst (custom_categories cfg)))"

text \<open>
  An expression sets a group when every way through it passes the group: then a match of it
  has the group.
\<close>

fun sets_group :: "string \<Rightarrow> regex \<Rightarrow> bool" where
  "sets_group n (Group name r) = (n = name \<or> sets_group n r)"
| "sets_group n (Seq r1 r2) = (sets_group n r1 \<or> sets_group n r2)"
| "sets_group n (Alt r1 r2) = (sets_group n r1 \<and> sets_group n r2)"
| "sets_group n r = False"

text \<open>What a pass over the currency patterns can give: nothing, or an amount with a currency.\<close>

definition pair_or_nothing :: "(regex \<times> ustr) list \<Rightarrow> exn + pydict option \<Rightarrow> bool" where
  "pair_or_nothing ps r =
     (r = Inr None \<or>
      (\<exists>a c. r = Inr (Some [(''amount'', PyDecimal a), (''currency'', PyStr c)]) \<and>
             c \<in> snd ` set ps))"

section \<open>The specification's reading of the merchant window\<close>

text \<open>
  The specification has the merchant extractor look at the first 5 non-empty trimmed lines,
  so that blank lines take no place among the five. This is that window, in the
  specification's words; it is compared with the source's window below.
\<close>

definition spec_merchant_window :: "unicode_db \<Rightarrow> ustr \<Rightarrow> ustr list" where
  "spec_merchant_window U text = take 5 (filter (\<lambda>l. l \<noteq> []) (map (strip U) (split_nl text)))"

section \<open>Evaluation\<close>

text \<open>
  Concrete inputs are evaluated by the simplifier from the definitions; the weak congruence
  rules make it decide a \<open>case\<close> before it looks into the branches.
\<close>

lemma like_space: "cpython_like U \<Longrightarrow> plain c \<Longrightarrow> u_space U c = cpython_space c"
  and like_decimal: "cpython_like U \<Longrightarrow> plain c \<Longrightarrow> u_decimal U c = ascii_digit c"
  and like_digit: "cpython_like U \<Longrightarrow> ascii_digit c \<Longrightarrow> u_digit U c = c - 48"
  and like_word: "cpython_like U \<Longrightarrow> plain c \<Longrightarrow> u_word U c = cpython_word c"
  and like_lower: "cpython_like U \<Longrightarrow> list_all plain s \<Longrightarrow> u_lower U s = map ascii_lower s"
  and like_ieq: "cpython_like U \<Longrightarrow> plain p \<Longrightarrow> plain c \<Longrightarrow>
                 u_ieq U p c = (ascii_lower p = ascii_lower c)"
  unfolding cpython_like_def by blast+

lemmas like = like_space like_decimal like_digit like_word like_lower like_ieq

lemma cpython_like_cpython: "cpython_like cpython"
  by (simp add: cpython_like_def cpython_def)

lemmas eval_defs =
  u_def plain_def ascii_lower_def ascii_digit_def cpython_space_def cpython_word_def
  strip_def remove_commas_def is_word_opt_def first_opt_def at_boundary_def consumed_def match_at_def re_search_def
  re_match_def group_def cat_def lit_def alts_def digit_def rng_def chr_def bind_exn_def
  digits_value_def py_int_def is_leap_def days_in_month_def make_datetime_def format_regex_def
  found_year_def found_field_def strptime_def py_Decimal_def
  date_sep_def date_patterns_def date_formats_def extract_date_def
  leading_date_def dollar_digits_def decimal_number_def skip_words_def merchant_line_ok_def
  extract_merchant_def number_group_def yuan_def currency_patterns_def total_keywords_def
  extract_amount_and_currency_def or_else_def total_words_def item_line_ok_def extract_items_def
  parse_receipt_text_def ReceiptData_new_def

lemmas weak_congs =
  option.case_cong_weak list.case_cong_weak sum.case_cong_weak prod.case_cong_weak
  exn.case_cong_weak

section \<open>The interpreter returns, and what it returns\<close>

lemma split_nl_nonempty: "split_nl s \<noteq> []"
  by (induction s) (auto split: list.splits)

lemma try_formats_all_fail:
  "list_all (\<lambda>fmt. strptime U s fmt = Inl ValueError) fmts \<Longrightarrow> try_formats U s fmts = Inr None"
  by (induction fmts) auto

lemma extract_date_loop_returns: "\<exists>d. extract_date_loop U text ps = Inr d"
  by (induction ps) (auto split: option.splits sum.splits)

lemma extract_date_returns: "\<exists>d. extract_date U text = Inr d"
  by (simp add: extract_date_def extract_date_loop_returns)

subsection \<open>A match of a currency pattern has group 1\<close>

lemma rmatch_keeps_groups:
  "(c', g') \<in> set (rmatch U ic r (c, g)) \<Longrightarrow> n \<in> fst ` set g \<Longrightarrow> n \<in> fst ` set g'"
proof (induction r arbitrary: c g c' g')
  case (Atom a)
  then show ?case by (cases c) (auto split: list.splits if_splits)
next
  case Bol
  then show ?case by (cases c) (auto split: if_splits)
next
  case WordB
  then show ?case by (cases c) (auto split: if_splits)
next
  case (Seq r1 r2)
  from Seq.prems(1) obtain c1 g1 where 1: "(c1, g1) \<in> set (rmatch U ic r1 (c, g))"
    and 2: "(c', g') \<in> set (rmatch U ic r2 (c1, g1))" by auto
  show ?case
    by (rule Seq.IH(2)[OF 2]) (rule Seq.IH(1)[OF 1 Seq.prems(2)])
next
  case (Alt r1 r2)
  from Alt.prems(1) have "(c', g') \<in> set (rmatch U ic r1 (c, g)) \<or>
      (c', g') \<in> set (rmatch U ic r2 (c, g))"
    by simp
  then show ?case
    using Alt.IH Alt.prems(2) by blast
next
  case (Rep lo hi a)
  then show ?case by (cases c) auto
next
  case (Group name r)
  obtain p s where c: "c = (p, s)" by (cases c)
  from Group.prems(1) obtain p' s' g1 where 1: "((p', s'), g1) \<in> set (rmatch U ic r (c, g))"
    and 2: "g' = AList.update name (consumed s s') g1"
    unfolding c by auto
  from Group.IH[OF 1 Group.prems(2)] show ?case
    by (simp add: 2 dom_update)
qed auto

lemma rmatch_sets_group:
  "sets_group n r \<Longrightarrow> (c', g') \<in> set (rmatch U ic r (c, g)) \<Longrightarrow> n \<in> fst ` set g'"
proof (induction r arbitrary: c g c' g')
  case (Seq r1 r2)
  from Seq.prems(2) obtain c1 g1 where 1: "(c1, g1) \<in> set (rmatch U ic r1 (c, g))"
    and 2: "(c', g') \<in> set (rmatch U ic r2 (c1, g1))" by auto
  from Seq.prems(1) have "sets_group n r1 \<or> sets_group n r2"
    by simp
  then show ?case
  proof
    assume "sets_group n r1"
    from rmatch_keeps_groups[OF 2 Seq.IH(1)[OF this 1]] show ?thesis .
  next
    assume "sets_group n r2"
    from Seq.IH(2)[OF this 2] show ?thesis .
  qed
next
  case (Alt r1 r2)
  from Alt.prems(2) have "(c', g') \<in> set (rmatch U ic r1 (c, g)) \<or>
      (c', g') \<in> set (rmatch U ic r2 (c, g))"
    by simp
  moreover from Alt.prems(1) have "sets_group n r1" and "sets_group n r2"
    by simp_all
  ultimately show ?case
    using Alt.IH by blast
next
  case (Group name r)
  obtain p s where c: "c = (p, s)" by (cases c)
  from Group.prems(2) obtain p' s' g1 where 1: "((p', s'), g1) \<in> set (rmatch U ic r (c, g))"
    and 2: "g' = AList.update name (consumed s s') g1"
    unfolding c by auto
  show ?case
  proof (cases "n = name")
    case True
    then show ?thesis by (simp add: 2 dom_update)
  next
    case False
    with Group.prems(1) have "sets_group n r" by simp
    from Group.IH[OF this 1] show ?thesis by (simp add: 2 dom_update)
  qed
qed auto

lemma match_at_sets_group:
  assumes "sets_group n r" and "match_at U ic r cur = Some m"
  shows "group m n \<noteq> None"
proof -
  from assms(2) obtain c' g' rest where 1: "rmatch U ic r (cur, []) = (c', g') # rest"
    and 2: "m_groups m = g'"
    by (auto simp: match_at_def split: list.splits)
  from 1 have "(c', g') \<in> set (rmatch U ic r (cur, []))" by simp
  from rmatch_sets_group[OF assms(1) this] show ?thesis
    by (simp add: group_def 2 map_of_eq_None_iff)
qed

lemma search_from_sets_group:
  "sets_group n r \<Longrightarrow> search_from U ic r p s = Some m \<Longrightarrow> group m n \<noteq> None"
  by (induction s arbitrary: p) (auto split: option.splits dest: match_at_sets_group)

lemma re_search_sets_group:
  "sets_group n r \<Longrightarrow> re_search U ic r s = Some m \<Longrightarrow> group m n \<noteq> None"
  unfolding re_search_def by (rule search_from_sets_group)

lemma currency_patterns_set_group: "list_all (\<lambda>(r, c). sets_group ''1'' r) currency_patterns"
  by (simp add: currency_patterns_def number_group_def cat_def lit_def u_def)

subsection \<open>The passes return nothing or a pair\<close>

lemma pair_or_nothing_mono:
  "pair_or_nothing ps r \<Longrightarrow> set ps \<subseteq> set qs \<Longrightarrow> pair_or_nothing qs r"
  unfolding pair_or_nothing_def by blast

lemma try_patterns_shape:
  "list_all (\<lambda>(r, c). sets_group ''1'' r) ps \<Longrightarrow> pair_or_nothing ps (try_patterns U s ps)"
proof (induction ps)
  case Nil
  then show ?case by (simp add: pair_or_nothing_def)
next
  case (Cons p ps)
  obtain r c where p: "p = (r, c)" by (cases p)
  from Cons.prems have sg: "sets_group ''1'' r"
    and rest: "list_all (\<lambda>(r, c). sets_group ''1'' r) ps"
    by (simp_all add: p)
  have ih: "pair_or_nothing (p # ps) (try_patterns U s ps)"
    by (rule pair_or_nothing_mono[OF Cons.IH[OF rest]]) auto
  show ?case
  proof (cases "re_search U True r s")
    case None
    with ih show ?thesis by (simp add: p)
  next
    case (Some m)
    from re_search_sets_group[OF sg Some] obtain g where g: "group m ''1'' = Some g"
      by auto
    show ?thesis
    proof (cases "py_Decimal U (remove_commas g)")
      case (Inl e)
      with ih Some g show ?thesis by (simp add: p)
    next
      case (Inr a)
      with Some g show ?thesis by (simp add: p pair_or_nothing_def)
    qed
  qed
qed

lemma currency_patterns_shape:
  "pair_or_nothing currency_patterns (try_patterns U s currency_patterns)"
  by (rule try_patterns_shape[OF currency_patterns_set_group])

lemma first_pass_shape: "pair_or_nothing currency_patterns (first_pass U ls)"
proof (induction ls)
  case Nil
  then show ?case by (simp add: pair_or_nothing_def)
next
  case (Cons l ls)
  from currency_patterns_shape[of U l] have
    "try_patterns U l currency_patterns = Inr None \<or>
     (\<exists>d. try_patterns U l currency_patterns = Inr (Some d) \<and>
          pair_or_nothing currency_patterns (Inr (Some d)))"
    unfolding pair_or_nothing_def by auto
  with Cons show ?case
    by auto
qed

lemma second_pass_shape: "pair_or_nothing currency_patterns (second_pass U ls)"
proof (induction ls)
  case Nil
  then show ?case by (simp add: pair_or_nothing_def)
next
  case (Cons l ls)
  from currency_patterns_shape[of U l] have
    "try_patterns U l currency_patterns = Inr None \<or>
     (\<exists>d. try_patterns U l currency_patterns = Inr (Some d) \<and>
          pair_or_nothing currency_patterns (Inr (Some d)))"
    unfolding pair_or_nothing_def by auto
  with Cons show ?case
    by auto
qed

lemma or_else_Some:
  "pair_or_nothing ps r \<Longrightarrow> r \<noteq> Inr None \<Longrightarrow>
   \<exists>a c. or_else r later = Inr [(''amount'', PyDecimal a), (''currency'', PyStr c)] \<and>
         c \<in> snd ` set ps"
  unfolding pair_or_nothing_def or_else_def by (elim disjE exE conjE) simp_all

lemma or_else_None: "or_else (Inr None) later = later"
  by (simp add: or_else_def)

lemma extract_amount_shape:
  "\<exists>d. extract_amount_and_currency U text = Inr d \<and>
       (d = [] \<or> (\<exists>a c. d = [(''amount'', PyDecimal a), (''currency'', PyStr c)] \<and>
                         c \<in> snd ` set currency_patterns))"
proof -
  let ?p1 = "first_pass U (split_nl text)"
  let ?p2 = "second_pass U (split_nl text)"
  let ?p3 = "try_patterns U text currency_patterns"
  have e: "extract_amount_and_currency U text = or_else ?p1 (or_else ?p2 (or_else ?p3 (Inr [])))"
    by (simp add: extract_amount_and_currency_def Let_def)
  show ?thesis
  proof (cases "?p1 = Inr None")
    case False
    from or_else_Some[OF first_pass_shape False] show ?thesis
      unfolding e by blast
  next
    case p1: True
    show ?thesis
    proof (cases "?p2 = Inr None")
      case False
      from or_else_Some[OF second_pass_shape False] show ?thesis
        unfolding e p1 or_else_None by blast
    next
      case p2: True
      show ?thesis
      proof (cases "?p3 = Inr None")
        case False
        from or_else_Some[OF currency_patterns_shape False] show ?thesis
          unfolding e p1 p2 or_else_None by blast
      next
        case True
        show ?thesis
          unfolding e p1 p2 True or_else_None by simp
      qed
    qed
  qed
qed

lemma currency_codes: "snd ` set currency_patterns = {u ''NTD'', u ''HKD'', u ''USD''}"
  by (auto simp: currency_patterns_def)

text \<open>
  C4. For every input text and whatever the character tables, \<open>_parse_receipt_text\<close>
  returns a record, and the \<open>items\<close> of that record are a list of at most 10 lines. It does
  not raise: the \<open>ValueError\<close> of \<open>strptime\<close> and the \<open>InvalidOperation\<close> of \<open>Decimal\<close>
  are caught where they arise, and the \<open>AttributeError\<close> of an unset group 1 cannot arise,
  since every currency pattern sets it.
\<close>

theorem parse_receipt_text_returns_items_le_10:
  "\<exists>r xs. parse_receipt_text U text = Inr r \<and> items r = Some xs \<and> length xs \<le> 10"
proof -
  obtain d where d: "extract_date U text = Inr d"
    using extract_date_returns by blast
  obtain a where a: "extract_amount_and_currency U text = Inr a"
    using extract_amount_shape by blast
  show ?thesis
    by (simp add: parse_receipt_text_def bind_exn_def d a extract_merchant_def extract_items_def)
qed

text \<open>
  C5. For every input text, the record \<open>_parse_receipt_text\<close> returns has \<open>amount\<close> and
  \<open>currency\<close> both absent, or both present: then the amount is a \<open>Decimal\<close> and the
  currency one of the three codes.
\<close>

theorem amount_currency_paired:
  "\<exists>r. parse_receipt_text U text = Inr r \<and>
       ((amount r = None \<and> currency r = None) \<or>
        (\<exists>a c. amount r = Some (PyDecimal a) \<and> currency r = Some (PyStr c) \<and>
               c \<in> {u ''NTD'', u ''HKD'', u ''USD''}))"
proof -
  obtain d where d: "extract_date U text = Inr d"
    using extract_date_returns by blast
  obtain a where a: "extract_amount_and_currency U text = Inr a"
    and sh: "a = [] \<or> (\<exists>x c. a = [(''amount'', PyDecimal x), (''currency'', PyStr c)] \<and>
                              c \<in> snd ` set currency_patterns)"
    using extract_amount_shape by blast
  from sh show ?thesis
    unfolding currency_codes
    by (auto simp add: parse_receipt_text_def bind_exn_def d a extract_merchant_def
        extract_items_def)
qed

section \<open>The merchant window\<close>

lemma merchant_loop_find: "merchant_loop U ls = find (merchant_line_ok U) (map (strip U) ls)"
  by (induction ls) auto

text \<open>
  C3, as stated, fails: in a text of five empty lines followed by \<open>Walmart\<close>, the first five
  non-empty trimmed lines are just \<open>Walmart\<close>, which passes every filter, but the source
  looks at the five empty lines only and returns \<open>None\<close>.
\<close>

theorem extract_merchant_blank_lines_counterexample:
  "spec_merchant_window cpython ([10, 10, 10, 10, 10] @ u ''Walmart'') = [u ''Walmart''] \<and>
   merchant_line_ok cpython (u ''Walmart'') \<and>
   extract_merchant cpython ([10, 10, 10, 10, 10] @ u ''Walmart'') = Inr None"
  by (simp add: spec_merchant_window_def cpython_def eval_defs cong: weak_congs)

text \<open>
  C3, amended. For every input text, \<open>_extract_merchant\<close> inspects the first 5 lines of
  \<open>text.split('\n')\<close>, blank ones included, each stripped, in order, and returns the first
  stripped line that passes all the skip filters, or \<open>None\<close> if none of the five does.
\<close>

theorem extract_merchant_first_five_lines:
  "extract_merchant U text =
     Inr (find (merchant_line_ok U) (map (strip U) (take 5 (split_nl text))))"
  by (simp add: extract_merchant_def merchant_loop_find)

section \<open>Amounts\<close>

text \<open>
  C7. For the text \<open>Amount: NT$100\<close> the extractor returns the amount 100 with the
  currency NTD: the \<open>NT$\<close> pattern is tried before the bare \<open>$\<close> pattern. (With any
  tables that are CPython's on the plain characters.)
\<close>

theorem nt_dollar_is_ntd:
  assumes "cpython_like U"
  shows "extract_amount_and_currency U (u ''Amount: NT$100'') =
     Inr [(''amount'', PyDecimal \<lparr> d_sign = 0, d_coeff = 100, d_exp = 0 \<rparr>),
          (''currency'', PyStr (u ''NTD''))]"
  by (simp add: eval_defs like[OF assms] cong: weak_congs)

text \<open>C7, with the tables \<open>cpython\<close>.\<close>

theorem nt_dollar_is_ntd_witness:
  "cpython_like cpython \<and>
   extract_amount_and_currency cpython (u ''Amount: NT$100'') =
     Inr [(''amount'', PyDecimal \<lparr> d_sign = 0, d_coeff = 100, d_exp = 0 \<rparr>),
          (''currency'', PyStr (u ''NTD''))]"
  using nt_dollar_is_ntd[OF cpython_like_cpython] cpython_like_cpython by simp

text \<open>
  C9. The \<open>$\<close> of the \<open>NT$\<close> pattern is optional, so the one-line text
  \<open>Total discount 5.00\<close>, which has no currency symbol, gives the amount 5.00 with the
  currency NTD: the \<open>nt\<close> of \<open>discount\<close>, a space and the number match the pattern.
  (With any tables that are CPython's on the plain characters.)
\<close>

theorem discount_read_as_ntd:
  assumes "cpython_like U"
  shows "extract_amount_and_currency U (u ''Total discount 5.00'') =
     Inr [(''amount'', PyDecimal \<lparr> d_sign = 0, d_coeff = 500, d_exp = - 2 \<rparr>),
          (''currency'', PyStr (u ''NTD''))]"
  by (simp add: eval_defs like[OF assms] cong: weak_congs)

text \<open>C9, with the tables \<open>cpython\<close>.\<close>

theorem discount_read_as_ntd_witness:
  "cpython_like cpython \<and>
   extract_amount_and_currency cpython (u ''Total discount 5.00'') =
     Inr [(''amount'', PyDecimal \<lparr> d_sign = 0, d_coeff = 500, d_exp = - 2 \<rparr>),
          (''currency'', PyStr (u ''NTD''))]"
  using discount_read_as_ntd[OF cpython_like_cpython] cpython_like_cpython by simp


lemma first_pass_append:
  "first_pass U a = Inr None \<Longrightarrow> first_pass U (a @ b) = first_pass U b"
  by (induction a) (auto split: option.splits sum.splits if_splits)

lemma total_line_patterns:
  assumes "cpython_like U"
  shows "try_patterns U (u ''Total: $9.18'') currency_patterns =
     Inr (Some [(''amount'', PyDecimal \<lparr> d_sign = 0, d_coeff = 918, d_exp = - 2 \<rparr>),
                (''currency'', PyStr (u ''USD''))])"
  by (simp add: eval_defs like[OF assms] cong: weak_congs)

lemma total_line_first_pass:
  assumes "cpython_like U"
  shows "first_pass U (u ''Total: $9.18'' # post) =
     Inr (Some [(''amount'', PyDecimal \<lparr> d_sign = 0, d_coeff = 918, d_exp = - 2 \<rparr>),
                (''currency'', PyStr (u ''USD''))])"
proof -
  have "py_in (u ''total'') (u_lower U (u ''Total: $9.18''))"
    by (simp add: eval_defs like[OF assms])
  moreover have "\<not> py_in (u ''subtotal'') (u_lower U (u ''Total: $9.18''))"
    by (simp add: eval_defs like[OF assms])
  ultimately show ?thesis
    by (simp add: total_line_patterns[OF assms])
qed

text \<open>
  C6. For any text whose lines include \<open>Subtotal: $8.50\<close> and \<open>Total: $9.18\<close>, where the
  first pass returns on no line before the \<open>Total\<close> line, amount extraction returns 9.18
  with the currency USD: the first pass, over the lines with \<open>total\<close> and without
  \<open>subtotal\<close>, is over before any other line is consulted. (With any tables that are
  CPython's on the plain characters; the other lines of the text are arbitrary.)
\<close>

theorem total_wins_over_subtotal:
  assumes "cpython_like U"
    and "split_nl text = pre @ u ''Total: $9.18'' # post"
    and "u ''Subtotal: $8.50'' \<in> set (split_nl text)"
    and "first_pass U pre = Inr None"
  shows "extract_amount_and_currency U text =
     Inr [(''amount'', PyDecimal \<lparr> d_sign = 0, d_coeff = 918, d_exp = - 2 \<rparr>),
          (''currency'', PyStr (u ''USD''))]"
proof -
  have "first_pass U (split_nl text) =
      Inr (Some [(''amount'', PyDecimal \<lparr> d_sign = 0, d_coeff = 918, d_exp = - 2 \<rparr>),
                 (''currency'', PyStr (u ''USD''))])"
    by (simp only: assms(2) first_pass_append[OF assms(4)] total_line_first_pass[OF assms(1)])
  then show ?thesis
    by (simp add: extract_amount_and_currency_def or_else_def)
qed

text \<open>
  C6, at the two-line text \<open>Subtotal: $8.50\<close>, \<open>Total: $9.18\<close>: the subtotal line comes
  first and the first pass does not return on it.
\<close>

theorem total_wins_over_subtotal_witness:
  "cpython_like cpython \<and>
   split_nl (u ''Subtotal: $8.50'' @ [10] @ u ''Total: $9.18'') =
     [u ''Subtotal: $8.50''] @ u ''Total: $9.18'' # [] \<and>
   u ''Subtotal: $8.50'' \<in> set (split_nl (u ''Subtotal: $8.50'' @ [10] @ u ''Total: $9.18'')) \<and>
   first_pass cpython [u ''Subtotal: $8.50''] = Inr None \<and>
   extract_amount_and_currency cpython (u ''Subtotal: $8.50'' @ [10] @ u ''Total: $9.18'') =
     Inr [(''amount'', PyDecimal \<lparr> d_sign = 0, d_coeff = 918, d_exp = - 2 \<rparr>),
          (''currency'', PyStr (u ''USD''))]"
proof -
  have h1: "split_nl (u ''Subtotal: $8.50'' @ [10] @ u ''Total: $9.18'') =
      [u ''Subtotal: $8.50''] @ u ''Total: $9.18'' # []"
    by (simp add: u_def)
  have h2: "u ''Subtotal: $8.50'' \<in> set (split_nl (u ''Subtotal: $8.50'' @ [10] @ u ''Total: $9.18''))"
    by (simp add: u_def)
  have h3: "first_pass cpython [u ''Subtotal: $8.50''] = Inr None"
    by (simp add: cpython_def eval_defs cong: weak_congs)
  show ?thesis
    using total_wins_over_subtotal[OF cpython_like_cpython h1 h2 h3] cpython_like_cpython h1 h2 h3
    by simp
qed

section \<open>Dates\<close>

text \<open>
  C1, as stated, fails. In the text \<open>2024-01-45\<close> the first pattern matches the whole text,
  which none of the six formats parses; the extractor then goes on: the second pattern does
  not occur, the third matches \<open>24-01-45\<close>, and the format \<open>%d-%m-%y\<close> reads it as
  24 January 2045.
\<close>

theorem extract_date_no_fallback_counterexample:
  "map_option m_text (re_search cpython False (date_patterns ! 0) (u ''2024-01-45'')) =
     Some (u ''2024-01-45'') \<and>
   map (strptime cpython (u ''2024-01-45'')) date_formats =
     [Inl ValueError, Inl ValueError, Inl ValueError, Inl ValueError, Inl ValueError,
      Inl ValueError] \<and>
   extract_date cpython (u ''2024-01-45'') =
     Inr (Some \<lparr> dt_year = 2045, dt_month = 1, dt_day = 24, dt_hour = 0, dt_minute = 0,
                 dt_second = 0 \<rparr>)"
  by (simp add: cpython_def eval_defs cong: weak_congs)

text \<open>
  C1, amended. For every input text, if the first pattern matches somewhere in the text and
  the matched substring fails all six formats, the extractor does fall back: its result is
  that of the loop over the remaining patterns, the second and then the third.
\<close>

theorem extract_date_falls_back:
  assumes "re_search U False (date_patterns ! 0) text = Some m"
    and "list_all (\<lambda>fmt. strptime U (m_text m) fmt = Inl ValueError) date_formats"
  shows "extract_date U text = extract_date_loop U text (tl date_patterns)"
proof -
  have "date_patterns = date_patterns ! 0 # tl date_patterns"
    by (simp add: date_patterns_def)
  then have "extract_date U text = extract_date_loop U text (date_patterns ! 0 # tl date_patterns)"
    by (simp add: extract_date_def)
  then show ?thesis
    using assms(1) try_formats_all_fail[OF assms(2)] by simp
qed

text \<open>C1, amended, at the text \<open>2024-01-45\<close>.\<close>

theorem extract_date_falls_back_witness:
  "re_search cpython False (date_patterns ! 0) (u ''2024-01-45'') =
     Some \<lparr> m_text = u ''2024-01-45'', m_groups = [] \<rparr> \<and>
   list_all (\<lambda>fmt. strptime cpython (m_text \<lparr> m_text = u ''2024-01-45'', m_groups = [] \<rparr>) fmt =
                    Inl ValueError) date_formats \<and>
   extract_date cpython (u ''2024-01-45'') =
     extract_date_loop cpython (u ''2024-01-45'') (tl date_patterns)"
proof -
  have h1: "re_search cpython False (date_patterns ! 0) (u ''2024-01-45'') =
      Some \<lparr> m_text = u ''2024-01-45'', m_groups = [] \<rparr>"
    by (simp add: cpython_def eval_defs cong: weak_congs)
  have h2: "list_all (\<lambda>fmt. strptime cpython (m_text \<lparr> m_text = u ''2024-01-45'', m_groups = [] \<rparr>) fmt =
                           Inl ValueError) date_formats"
    by (simp add: cpython_def eval_defs cong: weak_congs)
  show ?thesis
    using extract_date_falls_back[OF h1 h2] h1 h2 by simp
qed

section \<open>The classifier\<close>

lemmas cat_defs =
  dict_merge_def get_all_categories_def add_custom_category_def all_categories_def
  keyword_pattern_def merchant_hit_def keyword_hit_def falsy_def or_empty_def
  categorize_receipt_def builtin_categories_def CategoryConfig_new_def

subsection \<open>Keywords match at word boundaries\<close>

lemma starts_with_iff: "starts_with kw s \<longleftrightarrow> (\<exists>post. s = kw @ post)"
  by (induction kw s rule: starts_with.induct) auto

lemma lit_match:
  "rmatch U False (lit kw) ((p, s), g) =
     (if starts_with kw s then [((last_opt p kw, drop (length kw) s), g)] else [])"
proof (induction kw arbitrary: p s)
  case Nil
  then show ?case by (simp add: lit_def cat_def last_opt_def)
next
  case (Cons c cs)
  have l: "lit (c # cs) = Seq (Atom (Lit c)) (lit cs)"
    by (simp add: lit_def cat_def)
  show ?case
  proof (cases s)
    case Nil
    then show ?thesis by (simp add: l)
  next
    case (Cons x xs)
    then show ?thesis
      using Cons.IH[of "Some x" xs] by (auto simp: l last_opt_def)
  qed
qed

lemma keyword_match_at:
  "match_at U False (keyword_pattern kw) (p, s) \<noteq> None \<longleftrightarrow>
     at_boundary U p s \<and> starts_with kw s \<and> at_boundary U (last_opt p kw) (drop (length kw) s)"
  by (simp add: match_at_def keyword_pattern_def cat_def lit_match)

lemma search_from_iff:
  "search_from U ic r p s \<noteq> None \<longleftrightarrow>
     (\<exists>pre post. s = pre @ post \<and> match_at U ic r (last_opt p pre, post) \<noteq> None)"
proof (induction s arbitrary: p)
  case Nil
  then show ?case by (simp add: last_opt_def)
next
  case (Cons c cs)
  have "(\<exists>pre post. c # cs = pre @ post \<and> match_at U ic r (last_opt p pre, post) \<noteq> None) \<longleftrightarrow>
        match_at U ic r (p, c # cs) \<noteq> None \<or>
        (\<exists>pre post. cs = pre @ post \<and> match_at U ic r (last_opt (Some c) pre, post) \<noteq> None)"
    (is "?L \<longleftrightarrow> ?A \<or> ?B")
  proof
    assume ?L
    then obtain pre post where e: "c # cs = pre @ post"
      and m: "match_at U ic r (last_opt p pre, post) \<noteq> None" by blast
    show "?A \<or> ?B"
    proof (cases pre)
      case Nil
      with e m show ?thesis by (simp add: last_opt_def)
    next
      case (Cons x pre')
      with e have "cs = pre' @ post" and "x = c" by auto
      moreover have "last_opt p pre = last_opt (Some c) pre'"
        using Cons \<open>x = c\<close> by (simp add: last_opt_def)
      ultimately show ?thesis using m by auto
    qed
  next
    assume "?A \<or> ?B"
    then show ?L
    proof
      assume ?A
      then have "c # cs = [] @ (c # cs) \<and> match_at U ic r (last_opt p [], c # cs) \<noteq> None"
        by (simp add: last_opt_def)
      then show ?L by blast
    next
      assume ?B
      then obtain pre post where e: "cs = pre @ post"
        and m: "match_at U ic r (last_opt (Some c) pre, post) \<noteq> None" by blast
      have "last_opt p (c # pre) = last_opt (Some c) pre"
        by (simp add: last_opt_def)
      with e m have "c # cs = (c # pre) @ post \<and>
          match_at U ic r (last_opt p (c # pre), post) \<noteq> None"
        by simp
      then show ?L by blast
    qed
  qed
  then show ?case
    using Cons.IH[of "Some c"] by (auto split: option.splits)
qed

text \<open>
  For every keyword and every text, whatever the character tables: the keyword's pattern is
  found exactly when the keyword occurs with a word boundary right before it and one right
  after it.
\<close>

lemma keyword_search_iff:
  "re_search U False (keyword_pattern kw) text \<noteq> None \<longleftrightarrow>
     (\<exists>pre post. text = pre @ kw @ post \<and>
        at_boundary U (last_opt None pre) (kw @ post) \<and>
        at_boundary U (last_opt (last_opt None pre) kw) post)"
  unfolding re_search_def search_from_iff keyword_match_at starts_with_iff
  by (metis append_eq_conv_conj)

text \<open>
  C8. Keyword matching is anchored at word boundaries: the keyword \<open>restaurant\<close> is not found
  in \<open>restaurantish\<close>, and a receipt with that text and nothing else is classified
  \<open>Other\<close>; it is found in \<open>the restaurant downtown\<close>, and a receipt with that text gets
  the category of the rule, \<open>Food & Dining\<close>. (With any tables that are CPython's on the
  plain characters, and the built-in rule table.)
\<close>

theorem keyword_word_boundary:
  assumes "cpython_like U"
  shows "re_search U False (keyword_pattern (u ''restaurant'')) (u ''restaurantish'') = None \<and>
   categorize_receipt U CategoryConfig_new
     (ReceiptData_new \<lparr> raw_text := Some (u ''restaurantish'') \<rparr>) = u ''Other'' \<and>
   re_search U False (keyword_pattern (u ''restaurant'')) (u ''the restaurant downtown'') \<noteq> None \<and>
   categorize_receipt U CategoryConfig_new
     (ReceiptData_new \<lparr> raw_text := Some (u ''the restaurant downtown'') \<rparr>) = u ''Food & Dining''"
  by (simp add: eval_defs cat_defs like[OF assms] cong: weak_congs)

text \<open>C8, with the tables \<open>cpython\<close>.\<close>

theorem keyword_word_boundary_witness:
  "cpython_like cpython \<and>
   re_search cpython False (keyword_pattern (u ''restaurant'')) (u ''restaurantish'') = None \<and>
   categorize_receipt cpython CategoryConfig_new
     (ReceiptData_new \<lparr> raw_text := Some (u ''restaurantish'') \<rparr>) = u ''Other'' \<and>
   re_search cpython False (keyword_pattern (u ''restaurant'')) (u ''the restaurant downtown'') \<noteq> None \<and>
   categorize_receipt cpython CategoryConfig_new
     (ReceiptData_new \<lparr> raw_text := Some (u ''the restaurant downtown'') \<rparr>) = u ''Food & Dining''"
  using keyword_word_boundary[OF cpython_like_cpython] cpython_like_cpython by simp

subsection \<open>A custom rule under the name of a built-in one\<close>

lemma map_of_dict_merge:
  "distinct (map fst b) \<Longrightarrow> map_of (dict_merge a b) = map_of a ++ map_of b"
  unfolding dict_merge_def
proof (induction b arbitrary: a)
  case Nil
  then show ?case by simp
next
  case (Cons p b)
  obtain k v where p: "p = (k, v)" by (cases p)
  from Cons.prems have nk: "k \<notin> fst ` set b" and db: "distinct (map fst b)"
    by (auto simp: p)
  have "map_of b k = None"
    using nk by (simp add: map_of_eq_None_iff)
  then have e: "(map_of a)(k \<mapsto> v) ++ map_of b = (map_of a ++ map_of b)(k \<mapsto> v)"
    by (auto simp: map_add_def fun_eq_iff split: option.splits)
  have "map_of (fold (\<lambda>(k, v). AList.update k v) (p # b) a) =
        map_of (AList.update k v a) ++ map_of b"
    using Cons.IH[OF db, of "AList.update k v a"] by (simp add: p)
  also have "\<dots> = (map_of a)(k \<mapsto> v) ++ map_of b"
    by (simp only: update_conv')
  also have "\<dots> = (map_of a ++ map_of b)(k \<mapsto> v)"
    by (rule e)
  also have "\<dots> = map_of a ++ map_of (p # b)"
    by (simp add: p)
  finally show ?case .
qed

lemma wf_config_new: "wf_config CategoryConfig_new"
  by (simp add: wf_config_def CategoryConfig_new_def builtin_categories_def u_def)

lemma wf_config_add_custom_category:
  "wf_config cfg \<Longrightarrow> wf_config (add_custom_category cfg name kws ms)"
  by (simp add: wf_config_def add_custom_category_def distinct_update)

text \<open>
  C2: what the source does. A custom rule \<open>Food & Dining\<close> with the merchant \<open>uber eats\<close> is
  added; in the table \<open>categorize_receipt\<close> goes through, that name still has the built-in
  rule, and the receipt of the merchant \<open>Uber Eats\<close> is classified by the built-in
  \<open>Transportation\<close> rule instead of the custom rule.
\<close>

theorem categorize_receipt_ignores_colliding_custom_rule:
  "map_of (all_categories (add_custom_category CategoryConfig_new (u ''Food & Dining'') []
             [u ''uber eats''])) (u ''Food & Dining'') =
     map_of builtin_categories (u ''Food & Dining'') \<and>
   categorize_receipt cpython
     (add_custom_category CategoryConfig_new (u ''Food & Dining'') [] [u ''uber eats''])
     (ReceiptData_new \<lparr> merchant := Some (u ''Uber Eats''), raw_text := Some (u ''Uber Eats'') \<rparr>) =
     u ''Transportation''"
  by (simp add: cpython_def eval_defs cat_defs cong: weak_congs)

text \<open>
  C10. After \<open>add_custom_category\<close> under the name of a built-in category,
  \<open>get_all_categories\<close> gives that name the custom keywords and merchants, while the table
  \<open>categorize_receipt\<close> evaluates gives it the built-in rule.
\<close>

theorem listing_and_classifier_merge_in_opposite_directions:
  assumes "wf_config cfg" and "name \<in> fst ` set (default_categories cfg)"
  shows "map_of (get_all_categories (add_custom_category cfg name kws ms)) name =
           Some \<lparr> keywords = kws, merchants = ms \<rparr> \<and>
         map_of (all_categories (add_custom_category cfg name kws ms)) name =
           map_of (default_categories cfg) name"
proof -
  from assms(2) obtain r where r: "map_of (default_categories cfg) name = Some r"
    by (metis domD dom_map_of_conv_image_fst)
  show ?thesis
    using assms(1)
    by (simp add: wf_config_def get_all_categories_def all_categories_def
        add_custom_category_def map_of_dict_merge distinct_update update_conv' r)
qed

text \<open>C10, at the built-in configuration and the name \<open>Food & Dining\<close>.\<close>

theorem listing_and_classifier_merge_in_opposite_directions_witness:
  "wf_config CategoryConfig_new \<and>
   u ''Food & Dining'' \<in> fst ` set (default_categories CategoryConfig_new) \<and>
   map_of (get_all_categories (add_custom_category CategoryConfig_new (u ''Food & Dining'') []
             [u ''uber eats''])) (u ''Food & Dining'') =
     Some \<lparr> keywords = [], merchants = [u ''uber eats''] \<rparr> \<and>
   map_of (all_categories (add_custom_category CategoryConfig_new (u ''Food & Dining'') []
             [u ''uber eats''])) (u ''Food & Dining'') =
     map_of (default_categories CategoryConfig_new) (u ''Food & Dining'')"
proof -
  have h2: "u ''Food & Dining'' \<in> fst ` set (default_categories CategoryConfig_new)"
    by (simp add: CategoryConfig_new_def builtin_categories_def)
  show ?thesis
    using listing_and_classifier_merge_in_opposite_directions[OF wf_config_new h2,
        of "[]" "[u ''uber eats'']"] wf_config_new h2
    by simp
qed

section \<open>The model on the cases of the repository's tests\<close>

text \<open>
  The cases of \<open>tests/test_ocr_service.py\<close> for the four extractors, evaluated in the model
  with the tables \<open>cpython\<close>: each gives what the test expects.
\<close>

lemma test_extract_date_1:
  "extract_date cpython (u ''Receipt from 2024-01-15'') =
     Inr (Some \<lparr> dt_year = 2024, dt_month = 1, dt_day = 15,
                 dt_hour = 0, dt_minute = 0, dt_second = 0 \<rparr>)"
  by (simp add: cpython_def eval_defs cong: weak_congs)

lemma test_extract_date_2:
  "extract_date cpython (u ''Date: 2024/01/15'') =
     Inr (Some \<lparr> dt_year = 2024, dt_month = 1, dt_day = 15,
                 dt_hour = 0, dt_minute = 0, dt_second = 0 \<rparr>)"
  by (simp add: cpython_def eval_defs cong: weak_congs)

lemma test_extract_date_3:
  "extract_date cpython (u ''15-01-2024 Purchase'') =
     Inr (Some \<lparr> dt_year = 2024, dt_month = 1, dt_day = 15,
                 dt_hour = 0, dt_minute = 0, dt_second = 0 \<rparr>)"
  by (simp add: cpython_def eval_defs cong: weak_congs)

lemma test_extract_date_4:
  "extract_date cpython (u ''01/15/2024 Store'') =
     Inr (Some \<lparr> dt_year = 2024, dt_month = 1, dt_day = 15,
                 dt_hour = 0, dt_minute = 0, dt_second = 0 \<rparr>)"
  by (simp add: cpython_def eval_defs cong: weak_congs)

lemma test_extract_date_5:
  "extract_date cpython (u ''15-01-24 Receipt'') =
     Inr (Some \<lparr> dt_year = 2024, dt_month = 1, dt_day = 15,
                 dt_hour = 0, dt_minute = 0, dt_second = 0 \<rparr>)"
  by (simp add: cpython_def eval_defs cong: weak_congs)

lemma test_extract_date_6:
  "extract_date cpython (u ''01/15/24 Bill'') =
     Inr (Some \<lparr> dt_year = 2024, dt_month = 1, dt_day = 15,
                 dt_hour = 0, dt_minute = 0, dt_second = 0 \<rparr>)"
  by (simp add: cpython_def eval_defs cong: weak_congs)

lemma test_extract_date_7:
  "extract_date cpython (u ''No date here'') = Inr None"
  by (simp add: cpython_def eval_defs cong: weak_congs)

lemma test_extract_date_8:
  "extract_date cpython (u ''Invalid date 99/99/99'') = Inr None"
  by (simp add: cpython_def eval_defs cong: weak_congs)

lemma test_extract_merchant_1:
  "extract_merchant cpython (u ''WALMART STORE'' @ [10] @ u ''2024-01-15'' @ [10] @
      u ''Total: $25.50'') =
     Inr (Some (u ''WALMART STORE''))"
  by (simp add: cpython_def eval_defs cong: weak_congs)

lemma test_extract_merchant_2:
  "extract_merchant cpython (u ''McDonald'' @ [39] @ u ''s'' @ [10] @ u ''Receipt #123'' @ [10] @
      u ''Date: 2024-01-15'') =
     Inr (Some (u ''McDonald'' @ [39] @ u ''s''))"
  by (simp add: cpython_def eval_defs cong: weak_congs)

lemma test_extract_merchant_3:
  "extract_merchant cpython (u ''7-ELEVEN'' @ [10] @ u ''Convenience Store'' @ [10] @
      u ''2024-01-15'') =
     Inr (Some (u ''7-ELEVEN''))"
  by (simp add: cpython_def eval_defs cong: weak_congs)

lemma test_extract_merchant_4:
  "extract_merchant cpython (u ''Receipt'' @ [10] @ u ''Date: 2024-01-15'' @ [10] @
      u ''Total: $10'') = Inr None"
  by (simp add: cpython_def eval_defs cong: weak_congs)

lemma test_extract_merchant_5:
  "extract_merchant cpython [] = Inr None"
  by (simp add: cpython_def eval_defs cong: weak_congs)

lemma test_extract_merchant_6:
  "extract_merchant cpython (u ''2024-01-15'' @ [10] @ u ''Total: $5.00'') = Inr None"
  by (simp add: cpython_def eval_defs cong: weak_congs)

lemma test_extract_amount_1:
  "extract_amount_and_currency cpython (u ''Total: $25.50'') =
     Inr [(''amount'', PyDecimal \<lparr> d_sign = 0, d_coeff = 2550, d_exp = - 2 \<rparr>),
          (''currency'', PyStr (u ''USD''))]"
  by (simp add: cpython_def eval_defs cong: weak_congs)

lemma test_extract_amount_2:
  "extract_amount_and_currency cpython (u ''Amount: NT$100'') =
     Inr [(''amount'', PyDecimal \<lparr> d_sign = 0, d_coeff = 100, d_exp = 0 \<rparr>),
          (''currency'', PyStr (u ''NTD''))]"
  by (simp add: cpython_def eval_defs cong: weak_congs)

lemma test_extract_amount_3:
  "extract_amount_and_currency cpython (u ''Total: HK$75.25'') =
     Inr [(''amount'', PyDecimal \<lparr> d_sign = 0, d_coeff = 7525, d_exp = - 2 \<rparr>),
          (''currency'', PyStr (u ''HKD''))]"
  by (simp add: cpython_def eval_defs cong: weak_congs)

lemma test_extract_amount_4:
  "extract_amount_and_currency cpython ([21512, 35336] @ u '': NT$150'') =
     Inr [(''amount'', PyDecimal \<lparr> d_sign = 0, d_coeff = 150, d_exp = 0 \<rparr>),
          (''currency'', PyStr (u ''NTD''))]"
  by (simp add: cpython_def eval_defs cong: weak_congs)

lemma test_extract_amount_5:
  "extract_amount_and_currency cpython ([32317, 35336] @ u '': 200'' @ [20803]) =
     Inr [(''amount'', PyDecimal \<lparr> d_sign = 0, d_coeff = 200, d_exp = 0 \<rparr>),
          (''currency'', PyStr (u ''NTD''))]"
  by (simp add: cpython_def eval_defs cong: weak_congs)

lemma test_extract_amount_6:
  "extract_amount_and_currency cpython (u ''Sum: US$99.99'') =
     Inr [(''amount'', PyDecimal \<lparr> d_sign = 0, d_coeff = 9999, d_exp = - 2 \<rparr>),
          (''currency'', PyStr (u ''USD''))]"
  by (simp add: cpython_def eval_defs cong: weak_congs)

lemma test_extract_amount_7:
  "extract_amount_and_currency cpython (u ''Price: $1,234.56'') =
     Inr [(''amount'', PyDecimal \<lparr> d_sign = 0, d_coeff = 123456, d_exp = - 2 \<rparr>),
          (''currency'', PyStr (u ''USD''))]"
  by (simp add: cpython_def eval_defs cong: weak_congs)

lemma test_extract_amount_8:
  "extract_amount_and_currency cpython (u ''No amount here'') = Inr []"
  by (simp add: cpython_def eval_defs cong: weak_congs)

lemma test_extract_amount_9:
  "extract_amount_and_currency cpython (u ''Invalid: $abc'') = Inr []"
  by (simp add: cpython_def eval_defs cong: weak_congs)

lemma test_extract_items_1:
  "extract_items cpython (u ''WALMART STORE'' @ [10] @ u ''2024-01-15'' @ [10] @ u ''Milk 2%'' @ [10] @
      u ''Bread Whole Wheat'' @ [10] @ u ''Bananas'' @ [10] @
      u ''Total: $15.50'' @ [10, 21512, 35336] @ u '': $15.50'') =
     Inr [u ''WALMART STORE'', u ''Milk 2%'', u ''Bread Whole Wheat'', u ''Bananas'']"
  by (simp add: cpython_def eval_defs cong: weak_congs)

lemma test_extract_items_2:
  "extract_items cpython [] = Inr []"
  by (simp add: cpython_def eval_defs cong: weak_congs)

text \<open>
  Cases of \<open>tests/test_categories.py\<close>, the last one with a custom category: each gives
  what the test expects.
\<close>

lemma test_categorize_1:
  "categorize_receipt cpython CategoryConfig_new
     (ReceiptData_new \<lparr> merchant := Some (u ''McDonald'' @ [39] @ u ''s Restaurant''),
                        raw_text := Some (u ''Receipt from McDonald'' @ [39] @ u ''s'') \<rparr>) =
     u ''Food & Dining''"
  by (simp add: cpython_def eval_defs cat_defs cong: weak_congs)

lemma test_categorize_2:
  "categorize_receipt cpython CategoryConfig_new
     (ReceiptData_new \<lparr> merchant := Some (u ''Uber Technologies''),
                        raw_text := Some (u ''Ride from downtown to airport'') \<rparr>) =
     u ''Transportation''"
  by (simp add: cpython_def eval_defs cat_defs cong: weak_congs)

lemma test_categorize_3:
  "categorize_receipt cpython CategoryConfig_new
     (ReceiptData_new \<lparr> merchant := Some (u ''7-Eleven Store''),
                        raw_text := Some (u ''Convenience store purchase'') \<rparr>) =
     u ''Shopping''"
  by (simp add: cpython_def eval_defs cat_defs cong: weak_congs)

lemma test_categorize_4:
  "categorize_receipt cpython (add_custom_category CategoryConfig_new (u ''Pet Supplies'')
        [u ''pet'', u ''dog'', u ''cat''] [u ''petstore''])
     (ReceiptData_new \<lparr> merchant := Some (u ''PetStore Inc''),
                        raw_text := Some (u ''Dog food and pet toys'') \<rparr>) =
     u ''Pet Supplies''"
  by (simp add: cpython_def eval_defs cat_defs cong: weak_congs)

end
